theory Spec2Isabelle
  imports Main
begin

section \<open>The authentication adapter of discord-clone over a relational store\<close>

text \<open>
  The adapter \<^verbatim>\<open>mySqlDrizzleAdapter\<close> of \<^verbatim>\<open>src/server/auth.ts\<close> issues SQL statements
  through the query builder against the tables declared in the schema file. Each
  adapter method is embedded as a function from the store to a result and the store
  after the call; a rejected promise (a \<^verbatim>\<open>throw\<close>, or a statement the engine refuses) is
  the \<open>Inl\<close> branch of the result.
\<close>

subsection \<open>JavaScript values\<close>

text \<open>
  A value of type \<^verbatim>\<open>T | null | undefined\<close>. An absent property of an object reads as
  \<open>Undefined\<close>.
\<close>

datatype 'a jsval = Undefined | Null | Val 'a

text \<open>\<^verbatim>\<open>res[0]\<close>: indexing past the end of a JavaScript array gives \<^verbatim>\<open>undefined\<close>.\<close>

definition first_row :: "'a list \<Rightarrow> 'a jsval" where
  "first_row res = (case res of [] \<Rightarrow> Undefined | r # _ \<Rightarrow> Val r)"

text \<open>\<^verbatim>\<open>x ?? null\<close>.\<close>

definition or_null :: "'a jsval \<Rightarrow> 'a jsval" where
  "or_null x = (case x of Undefined \<Rightarrow> Null | Null \<Rightarrow> Null | Val v \<Rightarrow> Val v)"

text \<open>
  \<^verbatim>\<open>!x\<close> for \<^verbatim>\<open>x\<close> a string, null or undefined: the empty string is falsy too.
\<close>

definition falsy_string :: "string jsval \<Rightarrow> bool" where
  "falsy_string x = (case x of Undefined \<Rightarrow> True | Null \<Rightarrow> True | Val v \<Rightarrow> v = [])"

text \<open>\<^verbatim>\<open>!x\<close> for \<^verbatim>\<open>x\<close> an object, null or undefined: every object is truthy.\<close>

definition falsy_object :: "'a jsval \<Rightarrow> bool" where
  "falsy_object x = (case x of Undefined \<Rightarrow> True | Null \<Rightarrow> True | Val v \<Rightarrow> False)"

text \<open>
  What a nullable column without a default stores for a supplied value: \<^verbatim>\<open>undefined\<close>
  and \<^verbatim>\<open>null\<close> both store SQL NULL.
\<close>

definition nullable :: "'a jsval \<Rightarrow> 'a option" where
  "nullable x = (case x of Undefined \<Rightarrow> None | Null \<Rightarrow> None | Val v \<Rightarrow> Some v)"

subsection \<open>Rows of the four tables the adapter uses\<close>

text \<open>
  Columns follow the schema: \<^verbatim>\<open>varchar\<close> and \<^verbatim>\<open>text\<close> are strings, \<^verbatim>\<open>timestamp\<close> and \<^verbatim>\<open>int\<close>
  are integers (a timestamp is its number of milliseconds), a column without
  \<^verbatim>\<open>.notNull()\<close> is an option. Strings are compared by equality (a binary collation);
  length limits and the rounding of timestamps are not modelled.
\<close>

record user_row =
  user_id :: string
  user_name :: "string option"
  user_email :: string
  user_emailVerified :: "int option"
  user_image :: "string option"

record account_row =
  account_userId :: string
  account_type :: string
  account_provider :: string
  account_providerAccountId :: string
  account_refresh_token :: "string option"
  account_access_token :: "string option"
  account_expires_at :: "int option"
  account_token_type :: "string option"
  account_scope :: "string option"
  account_id_token :: "string option"
  account_session_state :: "string option"

record session_row =
  session_sessionToken :: string
  session_userId :: string
  session_expires :: int

record verification_token_row =
  vt_identifier :: string
  vt_token :: string
  vt_expires :: int

text \<open>
  The store: each table is the list of its rows, in the order a \<^verbatim>\<open>select\<close> without
  \<^verbatim>\<open>order by\<close> returns them; an insert appends.
\<close>

record store =
  users :: "user_row list"
  accounts :: "account_row list"
  sessions :: "session_row list"
  verificationTokens :: "verification_token_row list"

text \<open>The primary keys of the schema.\<close>

definition account_key :: "account_row \<Rightarrow> string \<times> string" where
  "account_key a = (account_provider a, account_providerAccountId a)"

definition vt_key :: "verification_token_row \<Rightarrow> string \<times> string" where
  "vt_key r = (vt_identifier r, vt_token r)"

text \<open>
  The states the engine admits: primary keys are unique and every \<^verbatim>\<open>userId\<close> references
  a user.
\<close>

definition wf_store :: "store \<Rightarrow> bool" where
  "wf_store s \<longleftrightarrow>
     distinct (map user_id (users s)) \<and>
     distinct (map account_key (accounts s)) \<and>
     distinct (map session_sessionToken (sessions s)) \<and>
     distinct (map vt_key (verificationTokens s)) \<and>
     (\<forall>a \<in> set (accounts s). account_userId a \<in> user_id ` set (users s)) \<and>
     (\<forall>r \<in> set (sessions s). session_userId r \<in> user_id ` set (users s))"

subsection \<open>Errors and the result of an awaited call\<close>

datatype driver_error =
    DuplicateEntry
  | ColumnCannotBeNull
  | NoDefaultValue
  | ForeignKeyFails

text \<open>
  \<open>Error msg\<close> is \<^verbatim>\<open>new Error(msg)\<close> thrown by the adapter itself; \<open>DriverError\<close> is a
  statement the engine refused, which the adapter lets through.
\<close>

datatype error = Error string | DriverError driver_error

type_synonym 'a db = "store \<Rightarrow> (error + 'a) \<times> store"

definition return_db :: "'a \<Rightarrow> 'a db" where
  "return_db v = (\<lambda>s. (Inr v, s))"

definition throw_db :: "error \<Rightarrow> 'a db" where
  "throw_db e = (\<lambda>s. (Inl e, s))"

text \<open>\<^verbatim>\<open>const v = await m; k(v)\<close>: a rejection of \<^verbatim>\<open>m\<close> skips the rest.\<close>

definition await :: "'a db \<Rightarrow> ('a \<Rightarrow> 'b db) \<Rightarrow> 'b db" where
  "await m k = (\<lambda>s. case m s of (Inl e, s') \<Rightarrow> (Inl e, s') | (Inr v, s') \<Rightarrow> k v s')"

text \<open>\<^verbatim>\<open>try { m } catch (err) { h(err) }\<close>.\<close>

definition try_catch :: "'a db \<Rightarrow> (error \<Rightarrow> 'a db) \<Rightarrow> 'a db" where
  "try_catch m h = (\<lambda>s. case m s of (Inl e, s') \<Rightarrow> h e s' | (Inr v, s') \<Rightarrow> (Inr v, s'))"

subsection \<open>Statements\<close>

text \<open>\<^verbatim>\<open>client.select().from(tbl).where(P)\<close>.\<close>

definition select_from :: "(store \<Rightarrow> 'r list) \<Rightarrow> ('r \<Rightarrow> bool) \<Rightarrow> 'r list db" where
  "select_from tbl P = (\<lambda>s. (Inr (filter P (tbl s)), s))"

text \<open>
  A left join keeps a left row that matches nothing, with \<^verbatim>\<open>null\<close> on the right; an
  inner join drops it.
\<close>

definition leftJoin :: "'a list \<Rightarrow> 'b list \<Rightarrow> ('a \<Rightarrow> 'b \<Rightarrow> bool) \<Rightarrow> ('a \<times> 'b option) list" where
  "leftJoin xs ys on =
     concat (map (\<lambda>x. case filter (on x) ys of
                          [] \<Rightarrow> [(x, None)]
                        | m # ms \<Rightarrow> map (\<lambda>y. (x, Some y)) (m # ms)) xs)"

definition innerJoin :: "'a list \<Rightarrow> 'b list \<Rightarrow> ('a \<Rightarrow> 'b \<Rightarrow> bool) \<Rightarrow> ('a \<times> 'b) list" where
  "innerJoin xs ys on = concat (map (\<lambda>x. map (\<lambda>y. (x, y)) (filter (on x) ys)) xs)"

text \<open>
  \<^verbatim>\<open>client.select().from(a).where(P).leftJoin(b, on)\<close>: the condition of \<^verbatim>\<open>where\<close> applies
  to the joined rows. A joined row is the pair of its two parts; its \<^verbatim>\<open>user\<close> property
  is the second.
\<close>

definition select_leftJoin ::
  "(store \<Rightarrow> 'a list) \<Rightarrow> (store \<Rightarrow> 'b list) \<Rightarrow> ('a \<Rightarrow> 'b \<Rightarrow> bool) \<Rightarrow>
   ('a \<times> 'b option \<Rightarrow> bool) \<Rightarrow> ('a \<times> 'b option) list db" where
  "select_leftJoin ta tb on P = (\<lambda>s. (Inr (filter P (leftJoin (ta s) (tb s) on)), s))"

definition select_innerJoin ::
  "(store \<Rightarrow> 'a list) \<Rightarrow> (store \<Rightarrow> 'b list) \<Rightarrow> ('a \<Rightarrow> 'b \<Rightarrow> bool) \<Rightarrow>
   ('a \<times> 'b \<Rightarrow> bool) \<Rightarrow> ('a \<times> 'b) list db" where
  "select_innerJoin ta tb on P = (\<lambda>s. (Inr (filter P (innerJoin (ta s) (tb s) on)), s))"

text \<open>
  The object \<^verbatim>\<open>data\<close> of \<^verbatim>\<open>createUser\<close> and \<^verbatim>\<open>updateUser\<close>: any property may be absent or
  null at run time, \<^verbatim>\<open>id\<close> included.
\<close>

record user_data =
  data_id :: "string jsval"
  data_name :: "string jsval"
  data_email :: "string jsval"
  data_emailVerified :: "int jsval"
  data_image :: "string jsval"

text \<open>
  The row \<^verbatim>\<open>insert(users).values(v)\<close> stores at server time \<open>now\<close>. An absent value takes
  the column's default: \<^verbatim>\<open>CURRENT_TIMESTAMP(3)\<close> for \<^verbatim>\<open>emailVerified\<close>, NULL for a nullable
  column, and none for \<^verbatim>\<open>id\<close> and \<^verbatim>\<open>email\<close>.
\<close>

definition user_row_of_values :: "int \<Rightarrow> user_data \<Rightarrow> driver_error + user_row" where
  "user_row_of_values now v =
     (case data_id v of
        Undefined \<Rightarrow> Inl NoDefaultValue
      | Null \<Rightarrow> Inl ColumnCannotBeNull
      | Val i \<Rightarrow>
          (case data_email v of
             Undefined \<Rightarrow> Inl NoDefaultValue
           | Null \<Rightarrow> Inl ColumnCannotBeNull
           | Val e \<Rightarrow>
               Inr \<lparr>user_id = i,
                    user_name = nullable (data_name v),
                    user_email = e,
                    user_emailVerified =
                      (case data_emailVerified v of
                         Undefined \<Rightarrow> Some now | Null \<Rightarrow> None | Val t \<Rightarrow> Some t),
                    user_image = nullable (data_image v)\<rparr>))"

definition insert_users :: "int \<Rightarrow> user_data \<Rightarrow> unit db" where
  "insert_users now v = (\<lambda>s.
     case user_row_of_values now v of
       Inl e \<Rightarrow> (Inl (DriverError e), s)
     | Inr r \<Rightarrow>
         if user_id r \<in> user_id ` set (users s) then (Inl (DriverError DuplicateEntry), s)
         else (Inr (), s\<lparr>users := users s @ [r]\<rparr>))"

text \<open>
  \<^verbatim>\<open>update(users).set(v)\<close> on one row: an absent property leaves its column, null
  stores NULL.
\<close>

definition set_user :: "user_data \<Rightarrow> user_row \<Rightarrow> user_row" where
  "set_user v r =
     \<lparr>user_id = (case data_id v of Val i \<Rightarrow> i | _ \<Rightarrow> user_id r),
      user_name = (case data_name v of Undefined \<Rightarrow> user_name r | Null \<Rightarrow> None | Val n \<Rightarrow> Some n),
      user_email = (case data_email v of Val e \<Rightarrow> e | _ \<Rightarrow> user_email r),
      user_emailVerified =
        (case data_emailVerified v of
           Undefined \<Rightarrow> user_emailVerified r | Null \<Rightarrow> None | Val t \<Rightarrow> Some t),
      user_image = (case data_image v of Undefined \<Rightarrow> user_image r | Null \<Rightarrow> None | Val i \<Rightarrow> Some i)\<rparr>"

text \<open>
  \<^verbatim>\<open>update(users).set(v).where(P)\<close>. The engine refuses the statement, changing nothing,
  when a matched row would get NULL in \<^verbatim>\<open>id\<close> or \<^verbatim>\<open>email\<close>, when the ids change and are
  no longer unique, or when an id that an account or a session references disappears.
\<close>

definition update_users :: "user_data \<Rightarrow> (user_row \<Rightarrow> bool) \<Rightarrow> unit db" where
  "update_users v P = (\<lambda>s.
     let rows = map (\<lambda>r. if P r then set_user v r else r) (users s);
         old_ids = user_id ` set (users s);
         new_ids = user_id ` set rows
     in
       if (\<exists>r \<in> set (users s). P r) \<and> (data_id v = Null \<or> data_email v = Null)
         then (Inl (DriverError ColumnCannotBeNull), s)
       else if map user_id rows \<noteq> map user_id (users s) \<and> \<not> distinct (map user_id rows)
         then (Inl (DriverError DuplicateEntry), s)
       else if (\<exists>a \<in> set (accounts s). account_userId a \<in> old_ids \<and> account_userId a \<notin> new_ids)
             \<or> (\<exists>r \<in> set (sessions s). session_userId r \<in> old_ids \<and> session_userId r \<notin> new_ids)
         then (Inl (DriverError ForeignKeyFails), s)
       else (Inr (), s\<lparr>users := rows\<rparr>))"

text \<open>
  The object \<^verbatim>\<open>data\<close> of \<^verbatim>\<open>updateSession\<close>: a partial session that carries its
  \<^verbatim>\<open>sessionToken\<close>.
\<close>

record session_data =
  sdata_sessionToken :: string
  sdata_userId :: "string jsval"
  sdata_expires :: "int jsval"

definition set_session :: "session_data \<Rightarrow> session_row \<Rightarrow> session_row" where
  "set_session v r =
     \<lparr>session_sessionToken = sdata_sessionToken v,
      session_userId = (case sdata_userId v of Val u \<Rightarrow> u | _ \<Rightarrow> session_userId r),
      session_expires = (case sdata_expires v of Val e \<Rightarrow> e | _ \<Rightarrow> session_expires r)\<rparr>"

text \<open>
  \<^verbatim>\<open>update(sessions).set(v).where(P)\<close>. The engine refuses the statement, changing nothing,
  when a matched row would get NULL in a column, when the tokens change and are no
  longer unique, or when a matched row would get a new \<^verbatim>\<open>userId\<close> that is no user's id.
\<close>

definition update_sessions :: "session_data \<Rightarrow> (session_row \<Rightarrow> bool) \<Rightarrow> unit db" where
  "update_sessions v P = (\<lambda>s.
     let rows = map (\<lambda>r. if P r then set_session v r else r) (sessions s)
     in
       if (\<exists>r \<in> set (sessions s). P r) \<and> (sdata_userId v = Null \<or> sdata_expires v = Null)
         then (Inl (DriverError ColumnCannotBeNull), s)
       else if map session_sessionToken rows \<noteq> map session_sessionToken (sessions s)
               \<and> \<not> distinct (map session_sessionToken rows)
         then (Inl (DriverError DuplicateEntry), s)
       else if (\<exists>r \<in> set (sessions s). P r
                  \<and> session_userId (set_session v r) \<noteq> session_userId r
                  \<and> session_userId (set_session v r) \<notin> user_id ` set (users s))
         then (Inl (DriverError ForeignKeyFails), s)
       else (Inr (), s\<lparr>sessions := rows\<rparr>))"

text \<open>\<^verbatim>\<open>delete(sessions).where(P)\<close>: no table references a session.\<close>

definition delete_sessions :: "(session_row \<Rightarrow> bool) \<Rightarrow> unit db" where
  "delete_sessions P = (\<lambda>s. (Inr (), s\<lparr>sessions := filter (\<lambda>r. \<not> P r) (sessions s)\<rparr>))"

text \<open>\<^verbatim>\<open>insert(verificationTokens).values(token)\<close>: every column is supplied.\<close>

definition insert_verificationTokens :: "verification_token_row \<Rightarrow> unit db" where
  "insert_verificationTokens r = (\<lambda>s.
     if vt_key r \<in> vt_key ` set (verificationTokens s) then (Inl (DriverError DuplicateEntry), s)
     else (Inr (), s\<lparr>verificationTokens := verificationTokens s @ [r]\<rparr>))"

text \<open>\<^verbatim>\<open>delete(verificationTokens).where(P)\<close>.\<close>

definition delete_verificationTokens :: "(verification_token_row \<Rightarrow> bool) \<Rightarrow> unit db" where
  "delete_verificationTokens P = (\<lambda>s.
     (Inr (), s\<lparr>verificationTokens := filter (\<lambda>r. \<not> P r) (verificationTokens s)\<rparr>))"

subsection \<open>The adapter's methods\<close>

text \<open>
  \<open>createId\<close> is the string the call \<^verbatim>\<open>createId()\<close> of the id library returns, and \<open>now\<close>
  the server time of the insert.
\<close>

definition createUser :: "string \<Rightarrow> int \<Rightarrow> user_data \<Rightarrow> user_row jsval db" where
  "createUser createId now data =
     (let id = createId in
      await (insert_users now (data\<lparr>data_id := Val id\<rparr>)) (\<lambda>_.
      await (select_from users (\<lambda>u. user_id u = id)) (\<lambda>res.
      return_db (first_row res))))"

definition getUser :: "string \<Rightarrow> user_row jsval db" where
  "getUser data =
     await (select_from users (\<lambda>u. user_id u = data)) (\<lambda>res.
     return_db (or_null (first_row res)))"

definition getUserByEmail :: "string \<Rightarrow> user_row jsval db" where
  "getUserByEmail data =
     await (select_from users (\<lambda>u. user_email u = data)) (\<lambda>res.
     return_db (or_null (first_row res)))"

definition getSessionAndUser :: "string \<Rightarrow> (session_row \<times> user_row) jsval db" where
  "getSessionAndUser data =
     await (select_innerJoin sessions users (\<lambda>r u. user_id u = session_userId r)
              (\<lambda>(r, u). session_sessionToken r = data)) (\<lambda>res.
     return_db (or_null (first_row res)))"

definition updateUser :: "user_data \<Rightarrow> user_row jsval db" where
  "updateUser data =
     (if falsy_string (data_id data) then throw_db (Error ''No user id.'')
      else
        await (update_users data (\<lambda>u. Val (user_id u) = data_id data)) (\<lambda>_.
        await (select_from users (\<lambda>u. Val (user_id u) = data_id data)) (\<lambda>res.
        return_db (first_row res))))"

definition updateSession :: "session_data \<Rightarrow> session_row jsval db" where
  "updateSession data =
     await (update_sessions data (\<lambda>r. session_sessionToken r = sdata_sessionToken data)) (\<lambda>_.
     await (select_from sessions (\<lambda>r. session_sessionToken r = sdata_sessionToken data)) (\<lambda>res.
     return_db (first_row res)))"

definition getUserByAccount :: "string \<Rightarrow> string \<Rightarrow> user_row jsval db" where
  "getUserByAccount provider providerAccountId =
     await (select_leftJoin accounts users (\<lambda>a u. account_userId a = user_id u)
              (\<lambda>(a, u). account_providerAccountId a = providerAccountId
                         \<and> account_provider a = provider)) (\<lambda>res.
     let dbAccount = or_null (first_row res) in
     if falsy_object dbAccount then return_db Null
     else return_db (case dbAccount of
                       Val (a, Some u) \<Rightarrow> Val u
                     | _ \<Rightarrow> Null))"

definition deleteSession :: "string \<Rightarrow> session_row jsval db" where
  "deleteSession sessionToken =
     await (select_from sessions (\<lambda>r. session_sessionToken r = sessionToken)) (\<lambda>res.
     let session = or_null (first_row res) in
     await (delete_sessions (\<lambda>r. session_sessionToken r = sessionToken)) (\<lambda>_.
     return_db session))"

definition createVerificationToken :: "verification_token_row \<Rightarrow> verification_token_row jsval db" where
  "createVerificationToken token =
     await (insert_verificationTokens token) (\<lambda>_.
     await (select_from verificationTokens (\<lambda>r. vt_identifier r = vt_identifier token)) (\<lambda>res.
     return_db (first_row res)))"

definition useVerificationToken :: "string \<Rightarrow> string \<Rightarrow> verification_token_row jsval db" where
  "useVerificationToken identifier token =
     try_catch
       (await (select_from verificationTokens
                 (\<lambda>r. vt_identifier r = identifier \<and> vt_token r = token)) (\<lambda>res.
        let deletedToken = or_null (first_row res) in
        await (delete_verificationTokens
                 (\<lambda>r. vt_identifier r = identifier \<and> vt_token r = token)) (\<lambda>_.
        return_db deletedToken)))
       (\<lambda>err. throw_db (Error ''No verification token found.''))"

subsection \<open>Example rows and stores\<close>

definition alice :: user_row where
  "alice = \<lparr>user_id = ''u1'', user_name = Some ''Alice'', user_email = ''alice@example.com'',
             user_emailVerified = None, user_image = None\<rparr>"

definition alice_github :: account_row where
  "alice_github =
     \<lparr>account_userId = ''u1'', account_type = ''oauth'', account_provider = ''github'',
      account_providerAccountId = ''42'', account_refresh_token = None,
      account_access_token = None, account_expires_at = None, account_token_type = None,
      account_scope = None, account_id_token = None, account_session_state = None\<rparr>"

text \<open>An account whose \<^verbatim>\<open>userId\<close> is no user's id.\<close>

definition orphan_account :: account_row where
  "orphan_account = alice_github\<lparr>account_userId := ''ghost'', account_providerAccountId := ''99''\<rparr>"

definition alice_session :: session_row where
  "alice_session = \<lparr>session_sessionToken = ''s1'', session_userId = ''u1'', session_expires = 1000\<rparr>"

definition token_t1 :: verification_token_row where
  "token_t1 = \<lparr>vt_identifier = ''alice@example.com'', vt_token = ''t1'', vt_expires = 100\<rparr>"

definition token_t2 :: verification_token_row where
  "token_t2 = \<lparr>vt_identifier = ''alice@example.com'', vt_token = ''t2'', vt_expires = 200\<rparr>"

definition example_store :: store where
  "example_store = \<lparr>users = [alice], accounts = [alice_github], sessions = [alice_session],
                     verificationTokens = [token_t1]\<rparr>"

definition bob_data :: user_data where
  "bob_data = \<lparr>data_id = Undefined, data_name = Val ''Bob'', data_email = Val ''bob@example.com'',
                data_emailVerified = Null, data_image = Undefined\<rparr>"

text \<open>Two arguments of \<^verbatim>\<open>updateSession\<close> for the session of \<open>alice\<close>.\<close>

definition later_update :: session_data where
  "later_update = \<lparr>sdata_sessionToken = ''s1'', sdata_userId = Undefined, sdata_expires = Val 2000\<rparr>"

definition ghost_update :: session_data where
  "ghost_update = \<lparr>sdata_sessionToken = ''s1'', sdata_userId = Val ''ghost'', sdata_expires = Undefined\<rparr>"

section \<open>Properties\<close>

lemmas db_defs = return_db_def throw_db_def await_def try_catch_def select_from_def

lemmas example_defs = alice_def alice_github_def alice_session_def token_t1_def
  example_store_def bob_data_def

subsection \<open>Selecting and deleting by a key\<close>

lemma filter_none: "\<forall>x \<in> set xs. \<not> P x \<Longrightarrow> filter P xs = []"
  by (induction xs) auto

lemma filter_all: "\<forall>x \<in> set xs. \<not> P x \<Longrightarrow> filter (\<lambda>x. \<not> P x) xs = xs"
  by (induction xs) auto

text \<open>Where a key is unique, a row is the only one with its key.\<close>

lemma filter_key_unique:
  "distinct (map f xs) \<Longrightarrow> x \<in> set xs \<Longrightarrow> filter (\<lambda>y. f y = f x) xs = [x]"
proof (induction xs)
  case Nil
  then show ?case by simp
next
  case (Cons a xs)
  show ?case
  proof (cases "a = x")
    case True
    with Cons.prems have "\<forall>y \<in> set xs. \<not> f y = f x" by (auto simp: image_iff)
    then have "filter (\<lambda>y. f y = f x) xs = []" by (rule filter_none)
    with True show ?thesis by simp
  next
    case False
    with Cons show ?thesis by (auto simp: image_iff)
  qed
qed

lemma filter_key_remove:
  "distinct (map f xs) \<Longrightarrow> x \<in> set xs \<Longrightarrow> filter (\<lambda>y. f y \<noteq> f x) xs = remove1 x xs"
proof (induction xs)
  case Nil
  then show ?case by simp
next
  case (Cons a xs)
  show ?case
  proof (cases "a = x")
    case True
    with Cons.prems have "\<forall>y \<in> set xs. \<not> f y = f x" by (auto simp: image_iff)
    then have "filter (\<lambda>y. \<not> f y = f x) xs = xs" by (rule filter_all)
    with True show ?thesis by simp
  next
    case False
    with Cons show ?thesis by (auto simp: image_iff)
  qed
qed

lemma vt_key_eq:
  "(vt_identifier y = vt_identifier r \<and> vt_token y = vt_token r) = (vt_key y = vt_key r)"
  by (simp add: vt_key_def)

lemma account_key_eq:
  "(account_providerAccountId b = account_providerAccountId a \<and> account_provider b = account_provider a)
     = (account_key b = account_key a)"
  by (auto simp: account_key_def)

text \<open>A condition on the left row alone may be applied before the join.\<close>

lemma leftJoin_filter_left:
  "filter (\<lambda>(x, y). P x) (leftJoin xs ys on) = leftJoin (filter P xs) ys on"
  by (induction xs) (auto simp: leftJoin_def split: list.splits)

lemma innerJoin_filter_left:
  "filter (\<lambda>(x, y). P x) (innerJoin xs ys on) = innerJoin (filter P xs) ys on"
  by (induction xs) (auto simp: innerJoin_def filter_map comp_def)

subsection \<open>What each method computes\<close>

lemma useVerificationToken_unfold:
  "useVerificationToken i t s =
     (Inr (or_null (first_row (filter (\<lambda>r. vt_identifier r = i \<and> vt_token r = t)
                                 (verificationTokens s)))),
      s\<lparr>verificationTokens :=
           filter (\<lambda>r. \<not> (vt_identifier r = i \<and> vt_token r = t)) (verificationTokens s)\<rparr>)"
  by (simp add: useVerificationToken_def db_defs delete_verificationTokens_def Let_def)

lemma createUser_unfold:
  "createUser createId now data s =
     (case user_row_of_values now (data\<lparr>data_id := Val createId\<rparr>) of
        Inl e \<Rightarrow> (Inl (DriverError e), s)
      | Inr r \<Rightarrow>
          if user_id r \<in> user_id ` set (users s) then (Inl (DriverError DuplicateEntry), s)
          else (Inr (first_row (filter (\<lambda>u. user_id u = createId) (users s @ [r]))),
                s\<lparr>users := users s @ [r]\<rparr>))"
  by (simp add: createUser_def db_defs insert_users_def Let_def split: sum.splits)

lemma user_row_of_values_id:
  "user_row_of_values now (data\<lparr>data_id := Val i\<rparr>) = Inr r \<Longrightarrow> user_id r = i"
  by (auto simp: user_row_of_values_def split: jsval.splits)

lemma filter_fresh_id:
  assumes "i \<notin> user_id ` set us" and "user_id r = i"
  shows "filter (\<lambda>u. user_id u = i) (us @ [r]) = [r]"
proof -
  from assms(1) have "\<forall>u \<in> set us. \<not> user_id u = i" by auto
  then have "filter (\<lambda>u. user_id u = i) us = []" by (rule filter_none)
  with assms(2) show ?thesis by simp
qed

lemma getUser_unfold:
  "getUser i s = (Inr (or_null (first_row (filter (\<lambda>u. user_id u = i) (users s)))), s)"
  by (simp add: getUser_def db_defs)

lemma getUserByAccount_unfold:
  "getUserByAccount p pid s =
     (Inr (case leftJoin (filter (\<lambda>a. account_providerAccountId a = pid \<and> account_provider a = p)
                            (accounts s)) (users s) (\<lambda>a u. account_userId a = user_id u) of
             (a, Some u) # _ \<Rightarrow> Val u
           | _ \<Rightarrow> Null), s)"
  by (simp add: getUserByAccount_def db_defs select_leftJoin_def leftJoin_filter_left Let_def
      first_row_def or_null_def falsy_object_def split: list.splits option.splits)

lemma deleteSession_unfold:
  "deleteSession tok s =
     (Inr (or_null (first_row (filter (\<lambda>r. session_sessionToken r = tok) (sessions s)))),
      s\<lparr>sessions := filter (\<lambda>r. \<not> session_sessionToken r = tok) (sessions s)\<rparr>)"
  by (simp add: deleteSession_def db_defs delete_sessions_def Let_def)

subsection \<open>Verification tokens are consumed once\<close>

text \<open>
  C1, as the code has it. For a row \<open>r\<close> of the verification-token table (whose key
  (identifier, token) is unique), the first call of \<^verbatim>\<open>useVerificationToken\<close> with the
  row's identifier and token returns \<open>r\<close> and deletes it; the second call finds
  nothing, returns \<^verbatim>\<open>null\<close> and leaves the store as it is. It does not throw: nothing
  in the \<^verbatim>\<open>try\<close> block fails when no row matches, since \<^verbatim>\<open>?? null\<close> turns the missing
  row into \<^verbatim>\<open>null\<close> and a delete that matches nothing is no error.
\<close>

theorem useVerificationToken_twice:
  assumes "r \<in> set (verificationTokens s)"
    and "distinct (map vt_key (verificationTokens s))"
  shows "useVerificationToken (vt_identifier r) (vt_token r) s =
           (Inr (Val r), s\<lparr>verificationTokens := remove1 r (verificationTokens s)\<rparr>)
       \<and> useVerificationToken (vt_identifier r) (vt_token r)
           (s\<lparr>verificationTokens := remove1 r (verificationTokens s)\<rparr>) =
           (Inr Null, s\<lparr>verificationTokens := remove1 r (verificationTokens s)\<rparr>)"
proof -
  let ?xs = "verificationTokens s"
  have sel: "filter (\<lambda>y. vt_key y = vt_key r) ?xs = [r]"
    using assms(2,1) by (rule filter_key_unique)
  have del: "filter (\<lambda>y. vt_key y \<noteq> vt_key r) ?xs = remove1 r ?xs"
    using assms(2,1) by (rule filter_key_remove)
  have gone: "\<forall>y \<in> set (remove1 r ?xs). \<not> vt_key y = vt_key r"
  proof
    fix y assume "y \<in> set (remove1 r ?xs)"
    then have "y \<in> set (filter (\<lambda>y. vt_key y \<noteq> vt_key r) ?xs)" by (simp only: del)
    then show "\<not> vt_key y = vt_key r" by simp
  qed
  have sel2: "filter (\<lambda>y. vt_key y = vt_key r) (remove1 r ?xs) = []"
    using gone by (rule filter_none)
  have del2: "filter (\<lambda>y. \<not> vt_key y = vt_key r) (remove1 r ?xs) = remove1 r ?xs"
    using gone by (rule filter_all)
  show ?thesis
    using sel del sel2 del2
    by (simp add: useVerificationToken_unfold vt_key_eq first_row_def or_null_def)
qed

theorem useVerificationToken_twice_witness:
  "useVerificationToken ''alice@example.com'' ''t1'' example_store =
     (Inr (Val token_t1), example_store\<lparr>verificationTokens := []\<rparr>)
   \<and> useVerificationToken ''alice@example.com'' ''t1'' (example_store\<lparr>verificationTokens := []\<rparr>) =
     (Inr Null, example_store\<lparr>verificationTokens := []\<rparr>)"
proof -
  have h1: "token_t1 \<in> set (verificationTokens example_store)"
    by (simp add: example_store_def)
  have h2: "distinct (map vt_key (verificationTokens example_store))"
    by (simp add: example_store_def)
  have "remove1 token_t1 (verificationTokens example_store) = []"
    by (simp add: example_store_def)
  moreover have "vt_identifier token_t1 = ''alice@example.com''" "vt_token token_t1 = ''t1''"
    by (simp_all add: token_t1_def)
  ultimately show ?thesis
    using useVerificationToken_twice [OF h1 h2] by simp
qed

text \<open>
  C1 as the specification words it fails: on the store that holds the one token
  \<open>token_t1\<close>, the first call returns that row and the second call, on the store the
  first one left, returns \<^verbatim>\<open>null\<close>: it is not the error "No verification token found.".
\<close>

theorem useVerificationToken_second_call_counterexample:
  "useVerificationToken ''alice@example.com'' ''t1'' example_store =
     (Inr (Val token_t1), example_store\<lparr>verificationTokens := []\<rparr>)
   \<and> fst (useVerificationToken ''alice@example.com'' ''t1''
            (example_store\<lparr>verificationTokens := []\<rparr>)) = Inr Null
   \<and> fst (useVerificationToken ''alice@example.com'' ''t1''
            (example_store\<lparr>verificationTokens := []\<rparr>))
       \<noteq> Inl (Error ''No verification token found.'')"
  by (simp add: useVerificationToken_def db_defs delete_verificationTokens_def first_row_def
      or_null_def example_defs)

text \<open>
  C9. When no row of the verification-token table has the given identifier and token,
  \<^verbatim>\<open>useVerificationToken\<close> returns \<^verbatim>\<open>null\<close>, does not throw, and the store is unchanged.
\<close>

theorem useVerificationToken_no_match_returns_null:
  assumes "\<forall>r \<in> set (verificationTokens s). \<not> (vt_identifier r = i \<and> vt_token r = t)"
  shows "useVerificationToken i t s = (Inr Null, s)"
proof -
  have "filter (\<lambda>r. vt_identifier r = i \<and> vt_token r = t) (verificationTokens s) = []"
    using assms by (rule filter_none)
  moreover have "filter (\<lambda>r. \<not> (vt_identifier r = i \<and> vt_token r = t)) (verificationTokens s)
      = verificationTokens s"
    using assms by (rule filter_all)
  ultimately show ?thesis
    by (simp add: useVerificationToken_unfold first_row_def or_null_def)
qed

theorem useVerificationToken_no_match_returns_null_witness:
  "useVerificationToken ''alice@example.com'' ''t2'' example_store = (Inr Null, example_store)"
proof -
  have h: "\<forall>r \<in> set (verificationTokens example_store).
             \<not> (vt_identifier r = ''alice@example.com'' \<and> vt_token r = ''t2'')"
    by (simp add: example_defs)
  show ?thesis
    using useVerificationToken_no_match_returns_null [OF h] by simp
qed

subsection \<open>Users\<close>

text \<open>
  C2. When the \<^verbatim>\<open>id\<close> of the argument is falsy (absent, null or the empty string),
  \<^verbatim>\<open>updateUser\<close> throws the error "No user id." and the store is the one it was given:
  no statement has run.
\<close>

theorem updateUser_falsy_id_throws:
  "falsy_string (data_id data) \<Longrightarrow> updateUser data s = (Inl (Error ''No user id.''), s)"
  by (simp add: updateUser_def throw_db_def)

theorem updateUser_falsy_id_throws_witness:
  "updateUser bob_data example_store = (Inl (Error ''No user id.''), example_store)
   \<and> updateUser (bob_data\<lparr>data_id := Val []\<rparr>) example_store
       = (Inl (Error ''No user id.''), example_store)"
proof -
  have h1: "falsy_string (data_id bob_data)"
    by (simp add: bob_data_def falsy_string_def)
  have h2: "falsy_string (data_id (bob_data\<lparr>data_id := Val []\<rparr>))"
    by (simp add: falsy_string_def)
  show ?thesis
    using updateUser_falsy_id_throws [OF h1, of example_store]
      updateUser_falsy_id_throws [OF h2, of example_store]
    by simp
qed

text \<open>
  C3. Let the payload be valid (its \<^verbatim>\<open>email\<close> is a string and its \<^verbatim>\<open>emailVerified\<close> is a
  date or null, as the type of the argument requires) and let the id that \<^verbatim>\<open>createId()\<close>
  returns be fresh, that is no id of the users table. Then, on every store,
  \<^verbatim>\<open>createUser\<close> appends one row to the users table and returns it, the row holds the
  payload's fields (an absent or null \<^verbatim>\<open>name\<close> or \<^verbatim>\<open>image\<close> as NULL) and the generated id,
  and \<^verbatim>\<open>getUser\<close> with that id afterwards returns the same row.
\<close>

theorem createUser_then_getUser:
  assumes "createId \<notin> user_id ` set (users s)"
    and "data_email data = Val e"
    and "data_emailVerified data \<noteq> Undefined"
  shows "let row = \<lparr>user_id = createId,
                    user_name = nullable (data_name data),
                    user_email = e,
                    user_emailVerified = nullable (data_emailVerified data),
                    user_image = nullable (data_image data)\<rparr>;
             s' = s\<lparr>users := users s @ [row]\<rparr>
         in createUser createId now data s = (Inr (Val row), s')
          \<and> getUser createId s' = (Inr (Val row), s')"
proof -
  let ?row = "\<lparr>user_id = createId,
                    user_name = nullable (data_name data),
                    user_email = e,
                    user_emailVerified = nullable (data_emailVerified data),
                    user_image = nullable (data_image data)\<rparr>"
  have row: "user_row_of_values now (data\<lparr>data_id := Val createId\<rparr>) = Inr ?row"
    using assms(2,3)
    by (cases "data_emailVerified data") (simp_all add: user_row_of_values_def nullable_def)
  have sel: "filter (\<lambda>u. user_id u = createId) (users s @ [?row]) = [?row]"
    using assms(1) by (intro filter_fresh_id) simp_all
  show ?thesis
    using assms(1) row sel
    by (simp add: createUser_unfold getUser_unfold first_row_def or_null_def Let_def)
qed

theorem createUser_then_getUser_witness:
  "createUser ''u2'' 5 bob_data example_store =
     (Inr (Val \<lparr>user_id = ''u2'', user_name = Some ''Bob'', user_email = ''bob@example.com'',
                user_emailVerified = None, user_image = None\<rparr>),
      example_store\<lparr>users := [alice, \<lparr>user_id = ''u2'', user_name = Some ''Bob'',
                user_email = ''bob@example.com'', user_emailVerified = None, user_image = None\<rparr>]\<rparr>)
   \<and> getUser ''u2'' (example_store\<lparr>users := [alice, \<lparr>user_id = ''u2'', user_name = Some ''Bob'',
                user_email = ''bob@example.com'', user_emailVerified = None, user_image = None\<rparr>]\<rparr>) =
     (Inr (Val \<lparr>user_id = ''u2'', user_name = Some ''Bob'', user_email = ''bob@example.com'',
                user_emailVerified = None, user_image = None\<rparr>),
      example_store\<lparr>users := [alice, \<lparr>user_id = ''u2'', user_name = Some ''Bob'',
                user_email = ''bob@example.com'', user_emailVerified = None, user_image = None\<rparr>]\<rparr>)"
proof -
  have h1: "''u2'' \<notin> user_id ` set (users example_store)"
    by (simp add: example_store_def alice_def)
  have h2: "data_email bob_data = Val ''bob@example.com''"
    by (simp add: bob_data_def)
  have h3: "data_emailVerified bob_data \<noteq> Undefined"
    by (simp add: bob_data_def)
  have "users example_store = [alice]"
    by (simp add: example_store_def)
  moreover have "nullable (data_name bob_data) = Some ''Bob''"
    "nullable (data_emailVerified bob_data) = None" "nullable (data_image bob_data) = None"
    by (simp_all add: bob_data_def nullable_def)
  ultimately show ?thesis
    using createUser_then_getUser [OF h1 h2 h3, of 5] by (simp add: Let_def)
qed

text \<open>
  C10. The \<^verbatim>\<open>id\<close> the caller supplies plays no part: \<^verbatim>\<open>createUser\<close> on a payload with any
  \<^verbatim>\<open>id\<close> does what it does on the payload without one. The call either fails and
  leaves the store as it was, or appends and returns one row, whose id is the
  generated one. It succeeds whenever the generated id is unused and the payload has
  an \<^verbatim>\<open>email\<close>: the row stored and returned then has the generated id and the payload's
  other fields, whatever \<^verbatim>\<open>id\<close> was supplied.
\<close>

theorem createUser_overwrites_supplied_id:
  "createUser createId now (data\<lparr>data_id := supplied\<rparr>) s = createUser createId now data s
   \<and> ((\<exists>e. createUser createId now (data\<lparr>data_id := supplied\<rparr>) s = (Inl e, s))
      \<or> (\<exists>row. user_id row = createId
             \<and> createUser createId now (data\<lparr>data_id := supplied\<rparr>) s =
                 (Inr (Val row), s\<lparr>users := users s @ [row]\<rparr>)))
   \<and> (createId \<notin> user_id ` set (users s) \<and> data_email data = Val e
      \<longrightarrow> createUser createId now (data\<lparr>data_id := supplied\<rparr>) s =
            (Inr (Val \<lparr>user_id = createId,
                        user_name = nullable (data_name data),
                        user_email = e,
                        user_emailVerified =
                          (case data_emailVerified data of
                             Undefined \<Rightarrow> Some now | Null \<Rightarrow> None | Val t \<Rightarrow> Some t),
                        user_image = nullable (data_image data)\<rparr>),
             s\<lparr>users := users s @
                  [\<lparr>user_id = createId,
                    user_name = nullable (data_name data),
                    user_email = e,
                    user_emailVerified =
                      (case data_emailVerified data of
                         Undefined \<Rightarrow> Some now | Null \<Rightarrow> None | Val t \<Rightarrow> Some t),
                    user_image = nullable (data_image data)\<rparr>]\<rparr>))"
proof -
  have same: "createUser createId now (data\<lparr>data_id := supplied\<rparr>) s = createUser createId now data s"
    by (simp add: createUser_def)
  have outcome: "(\<exists>e. createUser createId now data s = (Inl e, s))
      \<or> (\<exists>row. user_id row = createId
             \<and> createUser createId now data s = (Inr (Val row), s\<lparr>users := users s @ [row]\<rparr>))"
  proof (cases "user_row_of_values now (data\<lparr>data_id := Val createId\<rparr>)")
    case (Inl e)
    then show ?thesis by (simp add: createUser_unfold)
  next
    case (Inr r)
    then have id: "user_id r = createId" by (rule user_row_of_values_id)
    show ?thesis
    proof (cases "createId \<in> user_id ` set (users s)")
      case True
      with Inr id show ?thesis by (simp add: createUser_unfold)
    next
      case False
      then have "filter (\<lambda>u. user_id u = createId) (users s @ [r]) = [r]"
        using id by (rule filter_fresh_id)
      with Inr id False show ?thesis by (simp add: createUser_unfold first_row_def)
    qed
  qed
  have success: "createUser createId now data s =
            (Inr (Val \<lparr>user_id = createId,
                        user_name = nullable (data_name data),
                        user_email = e,
                        user_emailVerified =
                          (case data_emailVerified data of
                             Undefined \<Rightarrow> Some now | Null \<Rightarrow> None | Val t \<Rightarrow> Some t),
                        user_image = nullable (data_image data)\<rparr>),
             s\<lparr>users := users s @
                  [\<lparr>user_id = createId,
                    user_name = nullable (data_name data),
                    user_email = e,
                    user_emailVerified =
                      (case data_emailVerified data of
                         Undefined \<Rightarrow> Some now | Null \<Rightarrow> None | Val t \<Rightarrow> Some t),
                    user_image = nullable (data_image data)\<rparr>]\<rparr>)"
    if fresh: "createId \<notin> user_id ` set (users s)" and email: "data_email data = Val e"
  proof -
    let ?row = "\<lparr>user_id = createId,
                    user_name = nullable (data_name data),
                    user_email = e,
                    user_emailVerified =
                      (case data_emailVerified data of
                         Undefined \<Rightarrow> Some now | Null \<Rightarrow> None | Val t \<Rightarrow> Some t),
                    user_image = nullable (data_image data)\<rparr>"
    have row: "user_row_of_values now (data\<lparr>data_id := Val createId\<rparr>) = Inr ?row"
      using email by (simp add: user_row_of_values_def)
    have sel: "filter (\<lambda>u. user_id u = createId) (users s @ [?row]) = [?row]"
      using fresh by (intro filter_fresh_id) simp_all
    show ?thesis
      using fresh row sel by (simp add: createUser_unfold first_row_def)
  qed
  from same outcome success show ?thesis by simp
qed

theorem createUser_overwrites_supplied_id_witness:
  "createUser ''u2'' 5 (bob_data\<lparr>data_id := Val ''u1''\<rparr>) example_store =
     (Inr (Val \<lparr>user_id = ''u2'', user_name = Some ''Bob'', user_email = ''bob@example.com'',
                user_emailVerified = None, user_image = None\<rparr>),
      example_store\<lparr>users := [alice, \<lparr>user_id = ''u2'', user_name = Some ''Bob'',
                user_email = ''bob@example.com'', user_emailVerified = None, user_image = None\<rparr>]\<rparr>)
   \<and> createUser ''u2'' 5 (bob_data\<lparr>data_id := Val ''u1''\<rparr>) example_store
       = createUser ''u2'' 5 bob_data example_store
   \<and> user_id alice = ''u1''"
proof -
  have h: "''u2'' \<notin> user_id ` set (users example_store)
      \<and> data_email bob_data = Val ''bob@example.com''"
    by (simp add: example_store_def alice_def bob_data_def)
  have k: "users example_store = [alice]"
    "nullable (data_name bob_data) = Some ''Bob''"
    "nullable (data_image bob_data) = None"
    "data_emailVerified bob_data = Null"
    "user_id alice = ''u1''"
    by (simp_all add: example_store_def bob_data_def nullable_def alice_def)
  from createUser_overwrites_supplied_id
      [where createId = "''u2''" and now = 5 and data = bob_data and supplied = "Val ''u1''"
         and s = example_store and e = "''bob@example.com''"] h
  have "createUser ''u2'' 5 (bob_data\<lparr>data_id := Val ''u1''\<rparr>) example_store
          = createUser ''u2'' 5 bob_data example_store"
    and "createUser ''u2'' 5 (bob_data\<lparr>data_id := Val ''u1''\<rparr>) example_store =
            (Inr (Val \<lparr>user_id = ''u2'',
                        user_name = nullable (data_name bob_data),
                        user_email = ''bob@example.com'',
                        user_emailVerified =
                          (case data_emailVerified bob_data of
                             Undefined \<Rightarrow> Some 5 | Null \<Rightarrow> None | Val t \<Rightarrow> Some t),
                        user_image = nullable (data_image bob_data)\<rparr>),
             example_store\<lparr>users := users example_store @
                  [\<lparr>user_id = ''u2'',
                    user_name = nullable (data_name bob_data),
                    user_email = ''bob@example.com'',
                    user_emailVerified =
                      (case data_emailVerified bob_data of
                         Undefined \<Rightarrow> Some 5 | Null \<Rightarrow> None | Val t \<Rightarrow> Some t),
                    user_image = nullable (data_image bob_data)\<rparr>]\<rparr>)"
    by blast+
  then show ?thesis by (simp add: k)
qed

subsection \<open>Accounts\<close>

text \<open>
  C4. \<^verbatim>\<open>getUserByAccount\<close> returns \<^verbatim>\<open>null\<close> when no account row has the given provider
  and providerAccountId, and also when the account row \<open>a\<close> with them exists and no
  user has the id \<open>account_userId a\<close>; when the user \<open>u\<close> has that id, it returns \<open>u\<close>.
  The store is unchanged in all three cases. (The keys of accounts and users are
  unique, so "the" account and "the" user are determined.)
\<close>

theorem getUserByAccount_user_or_null:
  "((\<forall>a \<in> set (accounts s). \<not> (account_provider a = p \<and> account_providerAccountId a = pid))
      \<longrightarrow> getUserByAccount p pid s = (Inr Null, s))
   \<and> (a \<in> set (accounts s) \<and> distinct (map account_key (accounts s))
        \<and> (\<forall>u \<in> set (users s). user_id u \<noteq> account_userId a)
      \<longrightarrow> getUserByAccount (account_provider a) (account_providerAccountId a) s = (Inr Null, s))
   \<and> (a \<in> set (accounts s) \<and> distinct (map account_key (accounts s))
        \<and> u \<in> set (users s) \<and> user_id u = account_userId a \<and> distinct (map user_id (users s))
      \<longrightarrow> getUserByAccount (account_provider a) (account_providerAccountId a) s = (Inr (Val u), s))"
proof (intro conjI impI)
  assume "\<forall>a \<in> set (accounts s). \<not> (account_provider a = p \<and> account_providerAccountId a = pid)"
  then have "filter (\<lambda>a. account_providerAccountId a = pid \<and> account_provider a = p) (accounts s) = []"
    by (intro filter_none) auto
  then show "getUserByAccount p pid s = (Inr Null, s)"
    by (simp add: getUserByAccount_unfold leftJoin_def)
next
  assume h: "a \<in> set (accounts s) \<and> distinct (map account_key (accounts s))
        \<and> (\<forall>u \<in> set (users s). user_id u \<noteq> account_userId a)"
  then have acc: "filter (\<lambda>b. account_key b = account_key a) (accounts s) = [a]"
    by (intro filter_key_unique) simp_all
  from h have "\<forall>u \<in> set (users s). \<not> account_userId a = user_id u" by auto
  then have "filter (\<lambda>u. account_userId a = user_id u) (users s) = []"
    by (rule filter_none)
  with acc show "getUserByAccount (account_provider a) (account_providerAccountId a) s = (Inr Null, s)"
    by (simp add: getUserByAccount_unfold account_key_eq leftJoin_def)
next
  assume h: "a \<in> set (accounts s) \<and> distinct (map account_key (accounts s))
        \<and> u \<in> set (users s) \<and> user_id u = account_userId a \<and> distinct (map user_id (users s))"
  then have acc: "filter (\<lambda>b. account_key b = account_key a) (accounts s) = [a]"
    by (intro filter_key_unique) simp_all
  from h have "filter (\<lambda>v. user_id v = user_id u) (users s) = [u]"
    by (intro filter_key_unique) simp_all
  with h have "filter (\<lambda>v. account_userId a = user_id v) (users s) = [u]"
    by (simp add: eq_commute)
  with acc show "getUserByAccount (account_provider a) (account_providerAccountId a) s = (Inr (Val u), s)"
    by (simp add: getUserByAccount_unfold account_key_eq leftJoin_def)
qed

theorem getUserByAccount_user_or_null_witness:
  "getUserByAccount ''gitlab'' ''42'' example_store = (Inr Null, example_store)
   \<and> getUserByAccount ''github'' ''99'' (example_store\<lparr>accounts := [orphan_account]\<rparr>)
       = (Inr Null, example_store\<lparr>accounts := [orphan_account]\<rparr>)
   \<and> getUserByAccount ''github'' ''42'' example_store = (Inr (Val alice), example_store)"
proof -
  have h1: "\<forall>a \<in> set (accounts example_store).
              \<not> (account_provider a = ''gitlab'' \<and> account_providerAccountId a = ''42'')"
    by (simp add: example_store_def alice_github_def)
  have h2: "orphan_account \<in> set (accounts (example_store\<lparr>accounts := [orphan_account]\<rparr>))
      \<and> distinct (map account_key (accounts (example_store\<lparr>accounts := [orphan_account]\<rparr>)))
      \<and> (\<forall>u \<in> set (users (example_store\<lparr>accounts := [orphan_account]\<rparr>)).
            user_id u \<noteq> account_userId orphan_account)"
    by (simp add: example_store_def orphan_account_def alice_def)
  have h3: "alice_github \<in> set (accounts example_store)
      \<and> distinct (map account_key (accounts example_store))
      \<and> alice \<in> set (users example_store) \<and> user_id alice = account_userId alice_github
      \<and> distinct (map user_id (users example_store))"
    by (simp add: example_store_def alice_github_def alice_def)
  have k: "account_provider orphan_account = ''github''"
    "account_providerAccountId orphan_account = ''99''"
    "account_provider alice_github = ''github''"
    "account_providerAccountId alice_github = ''42''"
    by (simp_all add: orphan_account_def alice_github_def)
  from getUserByAccount_user_or_null
    [where s = example_store and p = "''gitlab''" and pid = "''42''"] h1
  have c1: "getUserByAccount ''gitlab'' ''42'' example_store = (Inr Null, example_store)"
    by blast
  from getUserByAccount_user_or_null
    [where s = "example_store\<lparr>accounts := [orphan_account]\<rparr>" and a = orphan_account] h2
  have c2: "getUserByAccount (account_provider orphan_account)
      (account_providerAccountId orphan_account) (example_store\<lparr>accounts := [orphan_account]\<rparr>)
       = (Inr Null, example_store\<lparr>accounts := [orphan_account]\<rparr>)"
    by blast
  from getUserByAccount_user_or_null
    [where s = example_store and a = alice_github and u = alice] h3
  have c3: "getUserByAccount (account_provider alice_github)
      (account_providerAccountId alice_github) example_store = (Inr (Val alice), example_store)"
    by blast
  from c1 c2 c3 show ?thesis by (simp add: k)
qed

subsection \<open>Sessions\<close>

text \<open>
  C5. When no session row has the token, \<^verbatim>\<open>deleteSession\<close> returns \<^verbatim>\<open>null\<close> and the whole
  store (every table) is unchanged. When the row \<open>r\<close> has it (tokens are unique),
  \<^verbatim>\<open>deleteSession\<close> returns \<open>r\<close> as it was, and the store afterwards is the old one with
  exactly \<open>r\<close> removed from the sessions table.
\<close>

theorem deleteSession_returns_row_and_removes_it:
  "((\<forall>r \<in> set (sessions s). session_sessionToken r \<noteq> tok)
      \<longrightarrow> deleteSession tok s = (Inr Null, s))
   \<and> (r \<in> set (sessions s) \<and> distinct (map session_sessionToken (sessions s))
      \<longrightarrow> deleteSession (session_sessionToken r) s =
            (Inr (Val r), s\<lparr>sessions := remove1 r (sessions s)\<rparr>))"
proof (intro conjI impI)
  assume "\<forall>r \<in> set (sessions s). session_sessionToken r \<noteq> tok"
  then have h: "\<forall>r \<in> set (sessions s). \<not> session_sessionToken r = tok" by simp
  have "filter (\<lambda>r. session_sessionToken r = tok) (sessions s) = []"
    using h by (rule filter_none)
  moreover have "filter (\<lambda>r. \<not> session_sessionToken r = tok) (sessions s) = sessions s"
    using h by (rule filter_all)
  ultimately show "deleteSession tok s = (Inr Null, s)"
    by (simp add: deleteSession_unfold first_row_def or_null_def)
next
  assume h: "r \<in> set (sessions s) \<and> distinct (map session_sessionToken (sessions s))"
  then have "filter (\<lambda>y. session_sessionToken y = session_sessionToken r) (sessions s) = [r]"
    by (intro filter_key_unique) simp_all
  moreover from h have "filter (\<lambda>y. session_sessionToken y \<noteq> session_sessionToken r) (sessions s)
      = remove1 r (sessions s)"
    by (intro filter_key_remove) simp_all
  ultimately show "deleteSession (session_sessionToken r) s =
            (Inr (Val r), s\<lparr>sessions := remove1 r (sessions s)\<rparr>)"
    by (simp add: deleteSession_unfold first_row_def or_null_def)
qed

theorem deleteSession_returns_row_and_removes_it_witness:
  "deleteSession ''nope'' example_store = (Inr Null, example_store)
   \<and> deleteSession ''s1'' example_store = (Inr (Val alice_session), example_store\<lparr>sessions := []\<rparr>)"
proof -
  have h1: "\<forall>r \<in> set (sessions example_store). session_sessionToken r \<noteq> ''nope''"
    by (simp add: example_store_def alice_session_def)
  have h2: "alice_session \<in> set (sessions example_store)
      \<and> distinct (map session_sessionToken (sessions example_store))"
    by (simp add: example_store_def)
  have k: "session_sessionToken alice_session = ''s1''"
    "remove1 alice_session (sessions example_store) = []"
    by (simp_all add: alice_session_def example_store_def)
  from deleteSession_returns_row_and_removes_it
    [where s = example_store and tok = "''nope''" and r = alice_session] h1 h2
  have "deleteSession ''nope'' example_store = (Inr Null, example_store)"
    and "deleteSession (session_sessionToken alice_session) example_store =
            (Inr (Val alice_session),
             example_store\<lparr>sessions := remove1 alice_session (sessions example_store)\<rparr>)"
    by blast+
  then show ?thesis by (simp add: k)
qed

lemma filter_map_key:
  assumes "\<And>x. k (f x) = t"
  shows "filter (\<lambda>x. k x = t) (map (\<lambda>x. if k x = t then f x else x) xs)
           = map f (filter (\<lambda>x. k x = t) xs)"
  using assms by (induction xs) auto

lemma set_session_token: "session_sessionToken (set_session v r) = sdata_sessionToken v"
  by (simp add: set_session_def)

lemma update_sessions_tokens:
  "map session_sessionToken
     (map (\<lambda>r. if session_sessionToken r = sdata_sessionToken v then set_session v r else r) xs)
   = map session_sessionToken xs"
  by (induction xs) (auto simp: set_session_token)

lemma updateSession_no_row:
  assumes "\<forall>r \<in> set (sessions s). session_sessionToken r \<noteq> sdata_sessionToken data"
  shows "updateSession data s = (Inr Undefined, s)"
proof -
  from assms have none: "\<forall>r \<in> set (sessions s). \<not> session_sessionToken r = sdata_sessionToken data"
    by simp
  then have sel: "filter (\<lambda>r. session_sessionToken r = sdata_sessionToken data) (sessions s) = []"
    by (rule filter_none)
  from none have same: "map (\<lambda>r. if session_sessionToken r = sdata_sessionToken data
      then set_session data r else r) (sessions s) = sessions s"
    by (intro map_idI) simp
  show ?thesis
    using none
    by (simp add: updateSession_def db_defs update_sessions_def Let_def same sel first_row_def)
qed

text \<open>
  Where the engine accepts the update, the rows with the token are rewritten and the
  first of them is read back.
\<close>

lemma updateSession_ok:
  assumes "sdata_userId data = Undefined \<or> (\<exists>u \<in> set (users s). sdata_userId data = Val (user_id u))"
    and "sdata_expires data \<noteq> Null"
  shows "updateSession data s =
     (Inr (first_row (map (set_session data)
              (filter (\<lambda>r. session_sessionToken r = sdata_sessionToken data) (sessions s)))),
      s\<lparr>sessions := map (\<lambda>r. if session_sessionToken r = sdata_sessionToken data
                                then set_session data r else r) (sessions s)\<rparr>)"
proof -
  from assms(1) have nn: "sdata_userId data \<noteq> Null" by auto
  have fk: "session_userId (set_session data r) = session_userId r \<or>
      session_userId (set_session data r) \<in> user_id ` set (users s)" for r
    using assms(1) by (auto simp: set_session_def)
  have sel: "filter (\<lambda>x. session_sessionToken x = sdata_sessionToken data)
      (map (\<lambda>x. if session_sessionToken x = sdata_sessionToken data then set_session data x else x)
         (sessions s))
    = map (set_session data)
        (filter (\<lambda>x. session_sessionToken x = sdata_sessionToken data) (sessions s))"
    by (rule filter_map_key) (rule set_session_token)
  show ?thesis
    using nn assms(2) fk
    by (simp add: updateSession_def db_defs update_sessions_def Let_def update_sessions_tokens sel
        set_session_token)
qed

text \<open>
  C7, as the code has it. When no session row has the token of the argument,
  \<^verbatim>\<open>updateSession\<close> returns \<^verbatim>\<open>undefined\<close> and the store is unchanged. When the row \<open>r\<close>
  has it (tokens are unique) and the engine accepts the update, that is a supplied
  \<^verbatim>\<open>userId\<close> is the id of a user and no supplied field is null, \<^verbatim>\<open>updateSession\<close>
  rewrites the rows with that token and returns the updated \<open>r\<close>, read back by the
  same token: the token is kept, and \<^verbatim>\<open>userId\<close> and \<^verbatim>\<open>expires\<close> are the supplied values
  where supplied and the old ones where not.
\<close>

theorem updateSession_returns_updated_row:
  "((\<forall>r \<in> set (sessions s). session_sessionToken r \<noteq> sdata_sessionToken data)
      \<longrightarrow> updateSession data s = (Inr Undefined, s))
   \<and> (r \<in> set (sessions s) \<and> session_sessionToken r = sdata_sessionToken data
        \<and> distinct (map session_sessionToken (sessions s))
        \<and> (sdata_userId data = Undefined
             \<or> (\<exists>u \<in> set (users s). sdata_userId data = Val (user_id u)))
        \<and> sdata_expires data \<noteq> Null
      \<longrightarrow> updateSession data s =
            (Inr (Val (set_session data r)),
             s\<lparr>sessions := map (\<lambda>x. if session_sessionToken x = sdata_sessionToken data
                                       then set_session data x else x) (sessions s)\<rparr>)
          \<and> session_sessionToken (set_session data r) = sdata_sessionToken data
          \<and> session_userId (set_session data r) =
              (case sdata_userId data of Val u \<Rightarrow> u | _ \<Rightarrow> session_userId r)
          \<and> session_expires (set_session data r) =
              (case sdata_expires data of Val e \<Rightarrow> e | _ \<Rightarrow> session_expires r))"
proof (intro conjI impI)
  assume "\<forall>r \<in> set (sessions s). session_sessionToken r \<noteq> sdata_sessionToken data"
  then show "updateSession data s = (Inr Undefined, s)"
    by (rule updateSession_no_row)
next
  assume h: "r \<in> set (sessions s) \<and> session_sessionToken r = sdata_sessionToken data
        \<and> distinct (map session_sessionToken (sessions s))
        \<and> (sdata_userId data = Undefined
             \<or> (\<exists>u \<in> set (users s). sdata_userId data = Val (user_id u)))
        \<and> sdata_expires data \<noteq> Null"
  then have "filter (\<lambda>x. session_sessionToken x = session_sessionToken r) (sessions s) = [r]"
    by (intro filter_key_unique) simp_all
  with h have sel: "filter (\<lambda>x. session_sessionToken x = sdata_sessionToken data) (sessions s) = [r]"
    by simp
  from h have "updateSession data s =
     (Inr (first_row (map (set_session data)
              (filter (\<lambda>r. session_sessionToken r = sdata_sessionToken data) (sessions s)))),
      s\<lparr>sessions := map (\<lambda>r. if session_sessionToken r = sdata_sessionToken data
                                then set_session data r else r) (sessions s)\<rparr>)"
    by (intro updateSession_ok) simp_all
  then show "updateSession data s =
            (Inr (Val (set_session data r)),
             s\<lparr>sessions := map (\<lambda>x. if session_sessionToken x = sdata_sessionToken data
                                       then set_session data x else x) (sessions s)\<rparr>)"
    by (simp add: sel first_row_def)
next
  show "session_sessionToken (set_session data r) = sdata_sessionToken data"
    by (rule set_session_token)
  show "session_userId (set_session data r) =
              (case sdata_userId data of Val u \<Rightarrow> u | _ \<Rightarrow> session_userId r)"
    by (simp add: set_session_def)
  show "session_expires (set_session data r) =
              (case sdata_expires data of Val e \<Rightarrow> e | _ \<Rightarrow> session_expires r)"
    by (simp add: set_session_def)
qed

theorem updateSession_returns_updated_row_witness:
  "updateSession (later_update\<lparr>sdata_sessionToken := ''s9''\<rparr>) example_store
     = (Inr Undefined, example_store)
   \<and> updateSession later_update example_store =
       (Inr (Val (alice_session\<lparr>session_expires := 2000\<rparr>)),
        example_store\<lparr>sessions := [alice_session\<lparr>session_expires := 2000\<rparr>]\<rparr>)"
proof -
  have h1: "\<forall>r \<in> set (sessions example_store).
      session_sessionToken r \<noteq> sdata_sessionToken (later_update\<lparr>sdata_sessionToken := ''s9''\<rparr>)"
    by (simp add: example_store_def alice_session_def)
  have h2: "alice_session \<in> set (sessions example_store)
        \<and> session_sessionToken alice_session = sdata_sessionToken later_update
        \<and> distinct (map session_sessionToken (sessions example_store))
        \<and> (sdata_userId later_update = Undefined
             \<or> (\<exists>u \<in> set (users example_store). sdata_userId later_update = Val (user_id u)))
        \<and> sdata_expires later_update \<noteq> Null"
    by (simp add: example_store_def alice_session_def later_update_def)
  have k: "set_session later_update alice_session = alice_session\<lparr>session_expires := 2000\<rparr>"
    "map (\<lambda>x. if session_sessionToken x = sdata_sessionToken later_update
                then set_session later_update x else x) (sessions example_store)
       = [alice_session\<lparr>session_expires := 2000\<rparr>]"
    by (simp_all add: set_session_def later_update_def alice_session_def example_store_def)
  from updateSession_returns_updated_row
    [where s = example_store and data = "later_update\<lparr>sdata_sessionToken := ''s9''\<rparr>"] h1
  have c1: "updateSession (later_update\<lparr>sdata_sessionToken := ''s9''\<rparr>) example_store
     = (Inr Undefined, example_store)"
    by blast
  from updateSession_returns_updated_row
    [where s = example_store and data = later_update and r = alice_session] h2
  have c2: "updateSession later_update example_store =
            (Inr (Val (set_session later_update alice_session)),
             example_store\<lparr>sessions :=
               map (\<lambda>x. if session_sessionToken x = sdata_sessionToken later_update
                         then set_session later_update x else x) (sessions example_store)\<rparr>)"
    by blast
  from c1 c2 show ?thesis by (simp add: k)
qed

text \<open>
  C7 as the specification words it, for every partial session, fails: the session
  \<^verbatim>\<open>s1\<close> exists, the argument carries its token and a \<^verbatim>\<open>userId\<close> that is no user's id;
  the engine refuses the update for the foreign key of the schema, and
  \<^verbatim>\<open>updateSession\<close> throws that error instead of returning a session or \<^verbatim>\<open>undefined\<close>.
\<close>

theorem updateSession_unknown_user_counterexample:
  "updateSession ghost_update example_store = (Inl (DriverError ForeignKeyFails), example_store)"
  by (simp add: updateSession_def db_defs update_sessions_def Let_def set_session_def
      ghost_update_def example_defs)

subsection \<open>Lookups that find nothing\<close>

lemma innerJoin_none:
  "\<forall>x \<in> set xs. \<forall>y \<in> set ys. \<not> on x y \<Longrightarrow> innerJoin xs ys on = []"
  by (induction xs) (auto simp: innerJoin_def filter_none)

lemma getUserByEmail_unfold:
  "getUserByEmail e s = (Inr (or_null (first_row (filter (\<lambda>u. user_email u = e) (users s)))), s)"
  by (simp add: getUserByEmail_def db_defs)

lemma getSessionAndUser_unfold:
  "getSessionAndUser t s =
     (Inr (or_null (first_row (innerJoin (filter (\<lambda>r. session_sessionToken r = t) (sessions s))
                                 (users s) (\<lambda>r u. user_id u = session_userId r)))), s)"
  by (simp add: getSessionAndUser_def db_defs select_innerJoin_def innerJoin_filter_left)

lemma or_null_first_row_nil: "or_null (first_row []) = Null"
  by (simp add: or_null_def first_row_def)

text \<open>
  C6. \<^verbatim>\<open>getUser\<close>, \<^verbatim>\<open>getUserByEmail\<close> and \<^verbatim>\<open>getSessionAndUser\<close> return \<^verbatim>\<open>null\<close> when no row
  matches (for \<^verbatim>\<open>getSessionAndUser\<close>: no session with the token is joined to a user),
  and on every store and argument they return a value and never throw; the store is
  unchanged.
\<close>

theorem lookups_return_null_when_nothing_matches:
  "((\<forall>u \<in> set (users s). user_id u \<noteq> i) \<longrightarrow> getUser i s = (Inr Null, s))
   \<and> ((\<forall>u \<in> set (users s). user_email u \<noteq> e) \<longrightarrow> getUserByEmail e s = (Inr Null, s))
   \<and> ((\<forall>r \<in> set (sessions s). session_sessionToken r = t \<longrightarrow>
          (\<forall>u \<in> set (users s). user_id u \<noteq> session_userId r))
        \<longrightarrow> getSessionAndUser t s = (Inr Null, s))
   \<and> (\<exists>v. getUser i s = (Inr v, s))
   \<and> (\<exists>v. getUserByEmail e s = (Inr v, s))
   \<and> (\<exists>v. getSessionAndUser t s = (Inr v, s))"
proof (intro conjI impI)
  assume "\<forall>u \<in> set (users s). user_id u \<noteq> i"
  then have "filter (\<lambda>u. user_id u = i) (users s) = []"
    by (intro filter_none) simp
  then show "getUser i s = (Inr Null, s)"
    by (simp add: getUser_unfold or_null_first_row_nil)
next
  assume "\<forall>u \<in> set (users s). user_email u \<noteq> e"
  then have "filter (\<lambda>u. user_email u = e) (users s) = []"
    by (intro filter_none) simp
  then show "getUserByEmail e s = (Inr Null, s)"
    by (simp add: getUserByEmail_unfold or_null_first_row_nil)
next
  assume "\<forall>r \<in> set (sessions s). session_sessionToken r = t \<longrightarrow>
          (\<forall>u \<in> set (users s). user_id u \<noteq> session_userId r)"
  then have "innerJoin (filter (\<lambda>r. session_sessionToken r = t) (sessions s)) (users s)
      (\<lambda>r u. user_id u = session_userId r) = []"
    by (intro innerJoin_none) simp
  then show "getSessionAndUser t s = (Inr Null, s)"
    by (simp add: getSessionAndUser_unfold or_null_first_row_nil)
next
  show "\<exists>v. getUser i s = (Inr v, s)" by (simp add: getUser_unfold)
  show "\<exists>v. getUserByEmail e s = (Inr v, s)" by (simp add: getUserByEmail_unfold)
  show "\<exists>v. getSessionAndUser t s = (Inr v, s)" by (simp add: getSessionAndUser_unfold)
qed

theorem lookups_return_null_when_nothing_matches_witness:
  "getUser ''u9'' example_store = (Inr Null, example_store)
   \<and> getUserByEmail ''nobody@example.com'' example_store = (Inr Null, example_store)
   \<and> getSessionAndUser ''s9'' example_store = (Inr Null, example_store)"
proof -
  have h1: "\<forall>u \<in> set (users example_store). user_id u \<noteq> ''u9''"
    by (simp add: example_store_def alice_def)
  have h2: "\<forall>u \<in> set (users example_store). user_email u \<noteq> ''nobody@example.com''"
    by (simp add: example_store_def alice_def)
  have h3: "\<forall>r \<in> set (sessions example_store). session_sessionToken r = ''s9'' \<longrightarrow>
          (\<forall>u \<in> set (users example_store). user_id u \<noteq> session_userId r)"
    by (simp add: example_store_def alice_session_def)
  from lookups_return_null_when_nothing_matches
    [where s = example_store and i = "''u9''" and e = "''nobody@example.com''" and t = "''s9''"]
    h1 h2 h3
  show ?thesis by blast
qed

subsection \<open>Creating a verification token\<close>

text \<open>
  \<^verbatim>\<open>createVerificationToken\<close> reads back by the identifier alone. Where no stored row
  has the identifier of the new token, the first row read is the new one.
\<close>

lemma createVerificationToken_new_identifier:
  assumes "\<forall>r \<in> set (verificationTokens s). vt_identifier r \<noteq> vt_identifier token"
  shows "createVerificationToken token s =
           (Inr (Val token), s\<lparr>verificationTokens := verificationTokens s @ [token]\<rparr>)"
proof -
  from assms have none: "\<forall>r \<in> set (verificationTokens s). \<not> vt_identifier r = vt_identifier token"
    by simp
  then have "filter (\<lambda>r. vt_identifier r = vt_identifier token) (verificationTokens s) = []"
    by (rule filter_none)
  moreover from none have "vt_key token \<notin> vt_key ` set (verificationTokens s)"
    by (auto simp: vt_key_def)
  ultimately show ?thesis
    by (simp add: createVerificationToken_def db_defs insert_verificationTokens_def first_row_def)
qed

text \<open>
  C8 fails on the code. The table holds \<open>token_t1\<close>; \<open>token_t2\<close> has the same identifier
  and another token, so the insert succeeds (the key is the pair). The read back by
  identifier alone finds both rows and \<^verbatim>\<open>res[0]\<close> is the older \<open>token_t1\<close>, not the
  token just inserted. (\<open>token_t1\<close> is first in the order of insertion and in the
  order of the primary key alike.)
\<close>

theorem createVerificationToken_returns_first_row_of_identifier:
  "createVerificationToken token_t2 example_store =
     (Inr (Val token_t1), example_store\<lparr>verificationTokens := [token_t1, token_t2]\<rparr>)
   \<and> token_t1 \<noteq> token_t2"
  by (simp add: createVerificationToken_def db_defs insert_verificationTokens_def vt_key_def
      first_row_def token_t1_def token_t2_def example_store_def)

section \<open>The adapter keeps the store well formed\<close>

text \<open>
  The theorems above assume unique keys where they name "the" row of a key. Every
  statement keeps \<open>wf_store\<close>, whether it succeeds or is refused, and so does every
  method built from them.
\<close>

lemma wf_insert_users: "wf_store s \<Longrightarrow> wf_store (snd (insert_users now v s))"
  by (auto simp: insert_users_def wf_store_def split: sum.splits)

lemma wf_delete_sessions: "wf_store s \<Longrightarrow> wf_store (snd (delete_sessions P s))"
  by (auto simp: delete_sessions_def wf_store_def distinct_map_filter)

lemma wf_insert_verificationTokens:
  "wf_store s \<Longrightarrow> wf_store (snd (insert_verificationTokens r s))"
  by (auto simp: insert_verificationTokens_def wf_store_def)

lemma wf_delete_verificationTokens:
  "wf_store s \<Longrightarrow> wf_store (snd (delete_verificationTokens P s))"
  by (auto simp: delete_verificationTokens_def wf_store_def distinct_map_filter)

lemma wf_update_sessions: "wf_store s \<Longrightarrow> wf_store (snd (update_sessions v P s))"
proof -
  assume wf: "wf_store s"
  let ?rows = "map (\<lambda>r. if P r then set_session v r else r) (sessions s)"
  show ?thesis
  proof (cases "snd (update_sessions v P s) = s")
    case True
    with wf show ?thesis by simp
  next
    case False
    then have upd: "snd (update_sessions v P s) = s\<lparr>sessions := ?rows\<rparr>"
      and keys: "map session_sessionToken ?rows = map session_sessionToken (sessions s)
                  \<or> distinct (map session_sessionToken ?rows)"
      and fk: "\<forall>r \<in> set (sessions s). P r \<longrightarrow>
                  session_userId (set_session v r) = session_userId r
                  \<or> session_userId (set_session v r) \<in> user_id ` set (users s)"
      by (auto simp: update_sessions_def Let_def split: if_splits)
    from wf have "distinct (map session_sessionToken (sessions s))"
      by (simp add: wf_store_def)
    with keys have "distinct (map session_sessionToken ?rows)"
      by (elim disjE) (simp_all only:)
    moreover from fk wf have "\<forall>r \<in> set ?rows. session_userId r \<in> user_id ` set (users s)"
      by (auto simp: wf_store_def)
    ultimately show ?thesis
      using wf by (simp add: upd wf_store_def)
  qed
qed

lemma wf_update_users: "wf_store s \<Longrightarrow> wf_store (snd (update_users v P s))"
proof -
  assume wf: "wf_store s"
  let ?rows = "map (\<lambda>r. if P r then set_user v r else r) (users s)"
  show ?thesis
  proof (cases "snd (update_users v P s) = s")
    case True
    with wf show ?thesis by simp
  next
    case False
    then have upd: "snd (update_users v P s) = s\<lparr>users := ?rows\<rparr>"
      and keys: "map user_id ?rows = map user_id (users s) \<or> distinct (map user_id ?rows)"
      and fka: "\<forall>a \<in> set (accounts s). account_userId a \<in> user_id ` set (users s)
                  \<longrightarrow> account_userId a \<in> user_id ` set ?rows"
      and fks: "\<forall>r \<in> set (sessions s). session_userId r \<in> user_id ` set (users s)
                  \<longrightarrow> session_userId r \<in> user_id ` set ?rows"
      by (auto simp: update_users_def Let_def split: if_splits)
    from wf have "distinct (map user_id (users s))"
      by (simp add: wf_store_def)
    with keys have "distinct (map user_id ?rows)"
      by (elim disjE) (simp_all only:)
    moreover from fka wf have "\<forall>a \<in> set (accounts s). account_userId a \<in> user_id ` set ?rows"
      by (simp add: wf_store_def)
    moreover from fks wf have "\<forall>r \<in> set (sessions s). session_userId r \<in> user_id ` set ?rows"
      by (simp add: wf_store_def)
    ultimately show ?thesis
      using wf by (simp add: upd wf_store_def)
  qed
qed

lemma snd_await:
  "snd (await m k s) = (case fst (m s) of Inl e \<Rightarrow> snd (m s) | Inr v \<Rightarrow> snd (k v (snd (m s))))"
  by (simp add: await_def split: prod.splits sum.splits)

lemma wf_await:
  assumes "wf_store s \<Longrightarrow> wf_store (snd (m s))"
    and "\<And>v s'. wf_store s' \<Longrightarrow> wf_store (snd (k v s'))"
    and "wf_store s"
  shows "wf_store (snd (await m k s))"
  using assms by (simp add: snd_await split: sum.splits)

lemma wf_select_from: "wf_store s \<Longrightarrow> wf_store (snd (select_from tbl P s))"
  by (simp add: select_from_def)

lemma wf_return: "wf_store s \<Longrightarrow> wf_store (snd (return_db v s))"
  by (simp add: return_db_def)

lemma wf_throw: "wf_store s \<Longrightarrow> wf_store (snd (throw_db e s))"
  by (simp add: throw_db_def)

lemma wf_try_catch:
  assumes "wf_store s \<Longrightarrow> wf_store (snd (m s))"
    and "\<And>e s'. wf_store s' \<Longrightarrow> wf_store (snd (h e s'))"
    and "wf_store s"
  shows "wf_store (snd (try_catch m h s))"
  using assms by (simp add: try_catch_def split: prod.splits sum.splits) (metis snd_conv)+

lemmas wf_intros = wf_await wf_select_from wf_return wf_throw wf_insert_users wf_delete_sessions
  wf_insert_verificationTokens wf_delete_verificationTokens wf_update_sessions wf_update_users

lemma wf_store_preserved:
  assumes "wf_store s"
  shows "wf_store (snd (createUser createId now data s))"
    and "wf_store (snd (updateUser data s))"
    and "wf_store (snd (updateSession sdata s))"
    and "wf_store (snd (deleteSession tok s))"
    and "wf_store (snd (createVerificationToken vt s))"
    and "wf_store (snd (useVerificationToken i t s))"
proof -
  show "wf_store (snd (createUser createId now data s))"
    unfolding createUser_def Let_def by (intro wf_intros assms)
  show "wf_store (snd (updateUser data s))"
    unfolding updateUser_def by (auto intro!: wf_intros assms)
  show "wf_store (snd (updateSession sdata s))"
    unfolding updateSession_def by (intro wf_intros assms)
  show "wf_store (snd (deleteSession tok s))"
    unfolding deleteSession_def Let_def by (intro wf_intros assms)
  show "wf_store (snd (createVerificationToken vt s))"
    unfolding createVerificationToken_def by (intro wf_intros assms)
  show "wf_store (snd (useVerificationToken i t s))"
    unfolding useVerificationToken_def Let_def by (intro wf_try_catch wf_intros assms)
qed

lemma wf_example_store: "wf_store example_store"
  by (simp add: wf_store_def example_defs account_key_def vt_key_def)

end
